theory Spec2Isabelle
  imports Complex_Main "HOL-Library.Sublist" "HOL-Library.AList"
begin

section \<open>Strings and file names\<close>

text \<open>
  The module constant \<open>accepted_types\<close> (line 19 of \<open>al_framework.py\<close>).
\<close>

definition accepted_types :: "string list" where
  "accepted_types = [''.jpg'', ''.jpeg'', ''.png'', ''.tiff'', ''.tif'']"

text \<open>
  Python's \<open>sub in s\<close> on strings: \<open>sub\<close> occurs in \<open>s\<close> as a contiguous run.
\<close>

fun str_in :: "string \<Rightarrow> string \<Rightarrow> bool" where
  "str_in sub [] = (sub = [])"
| "str_in sub (c # cs) = (prefix sub (c # cs) \<or> str_in sub cs)"

text \<open>
  \<open>name.rfind(c)\<close>: the index of the last occurrence of \<open>c\<close>, \<open>None\<close> where Python
  returns \<open>-1\<close>.
\<close>

fun str_rfind :: "char \<Rightarrow> string \<Rightarrow> nat option" where
  "str_rfind c [] = None"
| "str_rfind c (x # xs) =
     (case str_rfind c xs of
        Some i \<Rightarrow> Some (Suc i)
      | None \<Rightarrow> if x = c then Some 0 else None)"

text \<open>
  \<open>Path(name).suffix\<close> and \<open>Path(name).stem\<close> of \<open>pathlib\<close>, for a name without a
  directory part (the names \<open>os.listdir\<close> returns and the names shown in the two
  file views): with \<open>i = name.rfind('.')\<close>, the suffix is \<open>name[i:]\<close> and the stem
  \<open>name[:i]\<close> when \<open>0 < i < len(name) - 1\<close>; otherwise the suffix is empty and the
  stem is the whole name.
\<close>

definition Path_suffix :: "string \<Rightarrow> string" where
  "Path_suffix name =
     (case str_rfind CHR ''.'' name of
        None \<Rightarrow> []
      | Some i \<Rightarrow> if 0 < i \<and> Suc i < length name then drop i name else [])"

definition Path_stem :: "string \<Rightarrow> string" where
  "Path_stem name =
     (case str_rfind CHR ''.'' name of
        None \<Rightarrow> name
      | Some i \<Rightarrow> if 0 < i \<and> Suc i < length name then take i name else name)"


section \<open>The environment: files, console, message boxes, the external libraries\<close>

text \<open>
  A file is addressed by the pair (directory, name) that the program hands to
  \<open>os.path.join\<close>; directories are identified by their path string. The content of
  an image or mask file is the array \<open>imread\<close> returns for it. The file system is an
  association list, so that \<open>os.listdir\<close> can be computed; its order stands for the
  arbitrary order of \<open>os.listdir\<close>.
\<close>

type_synonym path = "string \<times> string"

datatype py_error = IndexError | KeyError | ZeroDivisionError | FileNotFoundError

text \<open>How a callback can end other than by returning: \<open>sys.exit()\<close> or an exception
  that nothing catches (the program has no \<open>try\<close>).\<close>

datatype stop = SysExit | Raised py_error

text \<open>
  The texts the program shows:
  \<^item> \<open>StackWarning\<close>: "Warning: 3D image stack found. We are assuming your first
    dimension is your stack dimension. Please cross check this." (line 278);
  \<^item> \<open>UnsupportedImage\<close>: "Image type not supported. Only 2D and 3D image shapes
    currently supported. ... Exiting now." (lines 287-288);
  \<^item> \<open>SelectImageWarning\<close>: "Please first select an image you wish to visualise. ..."
    (line 221);
  \<^item> \<open>SelectFoldersWarning\<close>: "You need to specify a folder both for your uncurated
    and curated dataset ..." (line 376).
\<close>

datatype message = StackWarning | UnsupportedImage | SelectImageWarning | SelectFoldersWarning

text \<open>
  What the program does to the outside other than to files: \<open>print\<close>, a
  \<open>QMessageBox\<close> executed, and a call of \<open>model.eval\<close>, recorded with the name of the
  file whose image is handed to the model.
\<close>

datatype event = Printed message | MessageBox message | ModelEval string

record 'a world =
  files :: "(path \<times> 'a) list"
  trace :: "event list"

definition emit :: "event \<Rightarrow> 'a world \<Rightarrow> 'a world" where
  "emit e w = w\<lparr>trace := trace w @ [e]\<rparr>"

definition os_path_exists :: "'a world \<Rightarrow> path \<Rightarrow> bool" where
  "os_path_exists w p = (map_of (files w) p \<noteq> None)"

definition os_listdir :: "'a world \<Rightarrow> string \<Rightarrow> string list" where
  "os_listdir w d = remdups (map snd (filter (\<lambda>p. fst p = d) (map fst (files w))))"

text \<open>\<open>imread\<close>: \<open>None\<close> stands for the \<open>FileNotFoundError\<close> of a missing file.\<close>

definition imread :: "'a world \<Rightarrow> path \<Rightarrow> 'a option" where
  "imread w p = map_of (files w) p"

definition imsave :: "path \<Rightarrow> 'a \<Rightarrow> 'a world \<Rightarrow> 'a world" where
  "imsave p a w = w\<lparr>files := AList.update p a (files w)\<rparr>"

definition os_remove :: "path \<Rightarrow> 'a world \<Rightarrow> py_error + 'a world" where
  "os_remove p w =
     (if os_path_exists w p then Inr (w\<lparr>files := AList.delete p (files w)\<rparr>)
      else Inl FileNotFoundError)"

text \<open>\<open>os.replace(src, dst)\<close>: renames, overwriting an existing \<open>dst\<close>; nothing
  changes when both are the same file.\<close>

definition os_replace :: "path \<Rightarrow> path \<Rightarrow> 'a world \<Rightarrow> py_error + 'a world" where
  "os_replace src dst w =
     (case map_of (files w) src of
        None \<Rightarrow> Inl FileNotFoundError
      | Some a \<Rightarrow>
          if src = dst then Inr w
          else Inr (w\<lparr>files := AList.update dst a (AList.delete src (files w))\<rparr>))"

text \<open>
  The external libraries the program calls, as parameters: \<open>img.shape\<close>,
  \<open>skimage.transform.rescale(img, scale, channel_axis)\<close>, the mask returned by
  \<open>model.eval(img, z_axis)\<close> (the first component of its result) and
  \<open>skimage.transform.resize(mask, output_shape, order=0)\<close>. The scale is a float in
  the program and a rational here.
\<close>

record 'a libs =
  shape :: "'a \<Rightarrow> nat list"
  rescale :: "'a \<Rightarrow> rat \<Rightarrow> nat option \<Rightarrow> 'a"
  model_eval :: "'a \<Rightarrow> nat option \<Rightarrow> 'a"
  resize :: "'a \<Rightarrow> nat list \<Rightarrow> 'a"


section \<open>The state of the windows\<close>

text \<open>A layer of the viewer: \<open>napari.layers.Image\<close> or \<open>napari.layers.Labels\<close>, with its
  name and its data.\<close>

datatype 'a layer = is_Image: Image (layer_name: string) (layer_data: 'a)
                  | is_Labels: Labels (layer_name: string) (layer_data: 'a)

record dirs =
  eval_data_path :: string
  train_data_path :: string

record 'a napari_window = dirs +
  img_filename :: string
  img :: 'a
  layers :: "'a layer list"
  closed :: bool

record 'a main_window = dirs +
  cur_selected_img :: "string option"
  nap_win :: "'a napari_window option"

record 'a welcome_window =
  filename_train :: string
  filename_val :: string
  hidden :: bool
  mw :: "'a main_window option"

section \<open>\<open>MainWindow.run_inference\<close>\<close>

text \<open>
  The body of the loop for a file that is not skipped (lines 261-291). The indexing
  \<open>orig_size[1]\<close> raises \<open>IndexError\<close> on a shape with fewer than two entries, and
  \<open>1/rescale_factor\<close> raises \<open>ZeroDivisionError\<close> when \<open>max_dim\<close> is 0.
\<close>

definition infer_image :: "'a libs \<Rightarrow> string \<Rightarrow> string \<Rightarrow> 'a world \<Rightarrow> stop option \<times> 'a world" where
  "infer_image L eval_path fname w =
     (case imread w (eval_path, fname) of
        None \<Rightarrow> (Some (Raised FileNotFoundError), w)
      | Some im \<Rightarrow>
          let orig_size = shape L im;
              seg_name = Path_stem fname @ ''_seg.tiff''
          in
          if Path_suffix fname \<in> set [''.jpg'', ''.jpeg'', ''.png'']
             \<or> ((Path_suffix fname \<in> set [''.tiff'', ''.tif''] \<and> length orig_size = 2)
                 \<or> (length orig_size = 3 \<and> (last orig_size = 3 \<or> last orig_size = 4)))
          then
            if length orig_size < 2 then (Some (Raised IndexError), w)
            else
              let height = orig_size ! 0; width = orig_size ! 1;
                  max_dim = max height width;
                  rescale_factor = (of_nat max_dim / 512 :: rat)
              in
              if rescale_factor = 0 then (Some (Raised ZeroDivisionError), w)
              else
                let img1 = rescale L im (1 / rescale_factor) None;
                    w1 = emit (ModelEval fname) w;
                    mask = model_eval L img1 None;
                    mask1 = resize L mask [height, width]
                in (None, imsave (eval_path, seg_name) mask1 w1)
          else if Path_suffix fname \<in> set [''.tiff'', ''.tif''] \<and> length orig_size = 3
          then
            let w0 = emit (Printed StackWarning) w;
                height = orig_size ! 1; width = orig_size ! 2;
                max_dim = max height width;
                rescale_factor = (of_nat max_dim / 512 :: rat)
            in
            if rescale_factor = 0 then (Some (Raised ZeroDivisionError), w0)
            else
              let img1 = rescale L im (1 / rescale_factor) (Some 0);
                  w1 = emit (ModelEval fname) w0;
                  mask = model_eval L img1 (Some 0);
                  mask1 = resize L mask [orig_size ! 0, height, width]
              in (None, imsave (eval_path, seg_name) mask1 w1)
          else (Some SysExit, emit (Printed UnsupportedImage) w))"

text \<open>The \<open>for\<close> loop over \<open>list_files\<close> (lines 254-291): names containing \<open>_seg\<close>
  are skipped; an exit or an exception ends the loop.\<close>

fun inference_loop :: "'a libs \<Rightarrow> string \<Rightarrow> string list \<Rightarrow> 'a world \<Rightarrow> stop option \<times> 'a world" where
  "inference_loop L eval_path [] w = (None, w)"
| "inference_loop L eval_path (fname # rest) w =
     (if str_in ''_seg'' fname then inference_loop L eval_path rest w
      else
        (case infer_image L eval_path fname w of
           (None, w1) \<Rightarrow> inference_loop L eval_path rest w1
         | (Some s, w1) \<Rightarrow> (Some s, w1)))"

text \<open>Line 252: the names of the uncurated folder whose suffix is accepted.\<close>

definition list_files :: "'a world \<Rightarrow> string \<Rightarrow> string list" where
  "list_files w eval_path =
     filter (\<lambda>file. Path_suffix file \<in> set accepted_types) (os_listdir w eval_path)"

text \<open>
  \<open>run_inference\<close> (lines 240-291). Both branches of the device test build the same
  model, which is the parameter \<open>L\<close>.
\<close>

definition run_inference ::
    "'a libs \<Rightarrow> 'a main_window \<Rightarrow> 'a world \<Rightarrow> stop option \<times> 'a world" where
  "run_inference L M w =
     inference_loop L (eval_data_path M) (list_files w (eval_data_path M)) w"


section \<open>The viewer window and the other callbacks\<close>

text \<open>
  \<open>NapariWindow.__init__\<close> (lines 55-95). The two branches of lines 64-73 differ
  only in the directory read, \<open>dir\<close> here. The viewer names the image layer
  \<open>Image\<close> and the labels layer after the variable \<open>seg\<close>.
\<close>

definition NapariWindow_init ::
    "string \<Rightarrow> string \<Rightarrow> string \<Rightarrow> 'a world \<Rightarrow> py_error + 'a napari_window" where
  "NapariWindow_init img_fn eval_path train_path w =
     (let potential_seg_name = Path_stem img_fn @ ''_seg.tiff'';
          dir = (if os_path_exists w (eval_path, img_fn) then eval_path else train_path)
      in
      case imread w (dir, img_fn) of
        None \<Rightarrow> Inl FileNotFoundError
      | Some im \<Rightarrow>
          let seg = (if os_path_exists w (dir, potential_seg_name)
                     then imread w (dir, potential_seg_name) else None)
          in Inr \<lparr>eval_data_path = eval_path, train_data_path = train_path,
                  img_filename = img_fn, img = im,
                  layers = Image ''Image'' im #
                           (case seg of None \<Rightarrow> [] | Some s \<Rightarrow> [Labels ''seg'' s]),
                  closed = False\<rparr>)"

text \<open>\<open>_get_layer_names\<close> (lines 97-109) with its default \<open>layer_type\<close>, \<open>Labels\<close>.\<close>

definition get_layer_names :: "'a layer list \<Rightarrow> string list" where
  "get_layer_names ls =
     (let layer_names = map layer_name (filter is_Labels ls)
      in if layer_names \<noteq> [] then [] @ layer_names else [])"

text \<open>\<open>viewer.layers[name]\<close>: the layer of that name.\<close>

definition layers_getitem :: "'a layer list \<Rightarrow> string \<Rightarrow> py_error + 'a layer" where
  "layers_getitem ls name =
     (case find (\<lambda>l. layer_name l = name) ls of None \<Rightarrow> Inl KeyError | Some l \<Rightarrow> Inr l)"

text \<open>\<open>on_add_button_clicked\<close> (lines 111-123).\<close>

definition on_add_button_clicked ::
    "'a napari_window \<Rightarrow> 'a world \<Rightarrow> stop option \<times> 'a napari_window \<times> 'a world" where
  "on_add_button_clicked W w =
     (let label_names = get_layer_names (layers W) in
      case label_names of
        [] \<Rightarrow> (Some (Raised IndexError), W, w)
      | first_name # _ \<Rightarrow>
          (case layers_getitem (layers W) first_name of
             Inl e \<Rightarrow> (Some (Raised e), W, w)
           | Inr l \<Rightarrow>
               let seg = layer_data l in
               (case os_replace (eval_data_path W, img_filename W)
                                (train_data_path W, img_filename W) w of
                  Inl e \<Rightarrow> (Some (Raised e), W, w)
                | Inr w1 \<Rightarrow>
                    let seg_name = Path_stem (img_filename W) @ ''_seg.tiff'';
                        w2 = imsave (train_data_path W, seg_name) seg w1
                    in
                    if os_path_exists w2 (eval_data_path W, seg_name)
                    then (case os_remove (eval_data_path W, seg_name) w2 of
                            Inl e \<Rightarrow> (Some (Raised e), W, w2)
                          | Inr w3 \<Rightarrow> (None, W\<lparr>closed := True\<rparr>, w3))
                    else (None, W\<lparr>closed := True\<rparr>, w2))))"

text \<open>\<open>MainWindow.__init__\<close> (lines 140-146, 170): nothing is selected at first.\<close>

definition MainWindow_init :: "string \<Rightarrow> string \<Rightarrow> 'a main_window" where
  "MainWindow_init eval_path train_path =
     \<lparr>eval_data_path = eval_path, train_data_path = train_path,
      cur_selected_img = None, nap_win = None\<rparr>"

text \<open>\<open>item_eval_selected\<close> and \<open>item_train_selected\<close> (lines 231-235).\<close>

definition item_eval_selected :: "'a main_window \<Rightarrow> string \<Rightarrow> 'a main_window" where
  "item_eval_selected M item = M\<lparr>cur_selected_img := Some item\<rparr>"

definition item_train_selected :: "'a main_window \<Rightarrow> string \<Rightarrow> 'a main_window" where
  "item_train_selected M item = M\<lparr>cur_selected_img := Some item\<rparr>"

text \<open>
  \<open>launch_napari_window\<close> (lines 213-229). \<open>not self.cur_selected_img\<close> holds for
  \<open>None\<close>, where the test of line 218 stops, and for the empty string.
\<close>

definition launch_napari_window ::
    "'a main_window \<Rightarrow> 'a world \<Rightarrow> stop option \<times> 'a main_window \<times> 'a world" where
  "launch_napari_window M w =
     (case cur_selected_img M of
        None \<Rightarrow> (None, M, emit (MessageBox SelectImageWarning) w)
      | Some s \<Rightarrow>
          if s = [] \<or> str_in ''_seg.tiff'' s
          then (None, M, emit (MessageBox SelectImageWarning) w)
          else
            (case NapariWindow_init s (eval_data_path M) (train_data_path M) w of
               Inl e \<Rightarrow> (Some (Raised e), M, w)
             | Inr nw \<Rightarrow> (None, M\<lparr>nap_win := Some nw\<rparr>, w)))"

text \<open>\<open>WelcomeWindow.start_main\<close> (lines 365-379).\<close>

definition start_main :: "'a welcome_window \<Rightarrow> 'a world \<Rightarrow> 'a welcome_window \<times> 'a world" where
  "start_main W w =
     (if filename_train W \<noteq> [] \<and> filename_val W \<noteq> []
      then (W\<lparr>hidden := True,
               mw := Some (MainWindow_init (filename_val W) (filename_train W))\<rparr>, w)
      else (W, emit (MessageBox SelectFoldersWarning) w))"


section \<open>Notions the properties are stated with\<close>

text \<open>
  The name of the mask that belongs to an image, in the words of the specification:
  the stem of the image's file name followed by the fixed suffix \<open>_seg.tiff\<close>.
\<close>

definition mask_name :: "string \<Rightarrow> string" where
  "mask_name image_name = Path_stem image_name @ ''_seg.tiff''"

text \<open>
  The two strategies in the words of the specification. 2D: rescale by
  512 / max(height, width), evaluate, resize the mask back to (height, width).
  3D stack: rescale with \<open>channel_axis=0\<close>, evaluate with \<open>z_axis=0\<close>, resize the
  mask back to (depth, height, width).
\<close>

definition strategy_2d :: "'a libs \<Rightarrow> 'a \<Rightarrow> 'a" where
  "strategy_2d L a =
     resize L
       (model_eval L
          (rescale L a (512 / of_nat (max (shape L a ! 0) (shape L a ! 1))) None) None)
       [shape L a ! 0, shape L a ! 1]"

definition strategy_3d :: "'a libs \<Rightarrow> 'a \<Rightarrow> 'a" where
  "strategy_3d L a =
     resize L
       (model_eval L
          (rescale L a (512 / of_nat (max (shape L a ! 1) (shape L a ! 2))) (Some 0))
          (Some 0))
       [shape L a ! 0, shape L a ! 1, shape L a ! 2]"



text \<open>
  A suffix and shape that match neither the condition of line 268 nor that of
  line 277.
\<close>

definition unsupported_shape :: "string \<Rightarrow> nat list \<Rightarrow> bool" where
  "unsupported_shape fname orig_size =
     (\<not> (Path_suffix fname \<in> set [''.jpg'', ''.jpeg'', ''.png'']
          \<or> ((Path_suffix fname \<in> set [''.tiff'', ''.tif''] \<and> length orig_size = 2)
              \<or> (length orig_size = 3 \<and> (last orig_size = 3 \<or> last orig_size = 4))))
      \<and> \<not> (Path_suffix fname \<in> set [''.tiff'', ''.tif''] \<and> length orig_size = 3))"

text \<open>
  The unlabeled images of a folder, in the order of its listing: the files whose
  suffix is accepted and whose name does not contain \<open>_seg\<close>.
\<close>

definition unlabeled_images :: "'a world \<Rightarrow> string \<Rightarrow> string list" where
  "unlabeled_images w d = filter (\<lambda>f. \<not> str_in ''_seg'' f) (list_files w d)"

text \<open>The files the model was invoked for, in order.\<close>

fun model_calls :: "event list \<Rightarrow> string list" where
  "model_calls [] = []"
| "model_calls (ModelEval fname # es) = fname # model_calls es"
| "model_calls (e # es) = model_calls es"

text \<open>
  What the program relies on from the libraries, after their documentation:
  \<open>resize\<close> returns an array of the requested shape when the input has no more
  dimensions than requested, and the model returns a mask of at most two dimensions
  for an image and of at most three for a stack evaluated along \<open>z_axis=0\<close>.
\<close>

definition resize_contract :: "'a libs \<Rightarrow> bool" where
  "resize_contract L =
     (\<forall>m s. length (shape L m) \<le> length s \<longrightarrow> shape L (resize L m s) = s)"

definition eval_contract :: "'a libs \<Rightarrow> bool" where
  "eval_contract L =
     (\<forall>x. length (shape L (model_eval L x None)) \<le> 2
          \<and> length (shape L (model_eval L x (Some 0))) \<le> 3)"


section \<open>Well-formed inputs and a concrete environment\<close>


text \<open>
  A small environment on which the properties below are run: an array is
  represented by its shape, the model returns a 2D mask for an image and a 3D mask
  for a stack, and \<open>resize\<close> returns an array of the requested shape.
\<close>

definition example_libs :: "nat list libs" where
  "example_libs =
     \<lparr>shape = (\<lambda>a. a),
      rescale = (\<lambda>a scale channel_axis. a),
      model_eval = (\<lambda>a z_axis. case z_axis of None \<Rightarrow> take 2 a | Some _ \<Rightarrow> take 3 a),
      resize = (\<lambda>m output_shape. output_shape)\<rparr>"

definition example_world :: "nat list world" where
  "example_world =
     \<lparr>files = [((''ev'', ''a.png''), [10, 20, 3]),
               ((''ev'', ''b.tif''), [5, 10, 20]),
               ((''ev'', ''a_seg.tiff''), [1, 1]),
               ((''ev'', ''notes.txt''), [7, 7]),
               ((''tr'', ''z.png''), [3, 3])],
      trace = []\<rparr>"

definition example_main :: "nat list main_window" where
  "example_main = MainWindow_init ''ev'' ''tr''"

text \<open>An uncurated folder whose second file is a four-dimensional TIFF.\<close>

definition stack4_world :: "nat list world" where
  "stack4_world =
     \<lparr>files = [((''ev'', ''a.png''), [10, 20, 3]),
               ((''ev'', ''c.tif''), [2, 3, 4, 5]),
               ((''ev'', ''b.tif''), [5, 10, 20])],
      trace = []\<rparr>"

text \<open>A viewer opened on \<open>a.png\<close> with a labels layer, one opened on \<open>b.tif\<close> without,
  and two states of the welcome window.\<close>

definition example_viewer :: "nat list napari_window" where
  "example_viewer =
     \<lparr>eval_data_path = ''ev'', train_data_path = ''tr'',
      img_filename = ''a.png'', img = [10, 20, 3],
      layers = [Image ''Image'' [10, 20, 3], Labels ''seg'' [10, 20]],
      closed = False\<rparr>"

definition unlabeled_viewer :: "nat list napari_window" where
  "unlabeled_viewer =
     \<lparr>eval_data_path = ''ev'', train_data_path = ''tr'',
      img_filename = ''b.tif'', img = [5, 10, 20],
      layers = [Image ''Image'' [5, 10, 20]],
      closed = False\<rparr>"

definition example_welcome :: "nat list welcome_window" where
  "example_welcome =
     \<lparr>filename_train = ''tr'', filename_val = ''ev'', hidden = False, mw = None\<rparr>"

definition empty_welcome :: "nat list welcome_window" where
  "empty_welcome =
     \<lparr>filename_train = [], filename_val = ''ev'', hidden = False, mw = None\<rparr>"

text \<open>The same viewer when the user chose one folder for both datasets.\<close>

definition same_folder_viewer :: "nat list napari_window" where
  "same_folder_viewer =
     \<lparr>eval_data_path = ''ev'', train_data_path = ''ev'',
      img_filename = ''a.png'', img = [10, 20, 3],
      layers = [Image ''Image'' [10, 20, 3], Labels ''seg'' [10, 20]],
      closed = False\<rparr>"

text \<open>A folder holding an array of one dimension under an image name.\<close>

definition flat_world :: "nat list world" where
  "flat_world = \<lparr>files = [((''ev'', ''line.png''), [7])], trace = []\<rparr>"

text \<open>A folder holding a TIFF whose array is empty.\<close>

definition empty_image_world :: "nat list world" where
  "empty_image_world = \<lparr>files = [((''ev'', ''e.tif''), [0, 0])], trace = []\<rparr>"

text \<open>The main window with a name selected that is a file of neither folder.\<close>

definition stale_main :: "nat list main_window" where
  "stale_main = item_eval_selected example_main ''gone.png''"


section \<open>Facts about names\<close>

lemma str_in_iff: "str_in sub s \<longleftrightarrow> (\<exists>ps ss. s = ps @ sub @ ss)"
proof (induction s)
  case Nil
  show ?case by auto
next
  case (Cons c cs)
  have "(\<exists>ps ss. c # cs = ps @ sub @ ss) \<longleftrightarrow>
          prefix sub (c # cs) \<or> (\<exists>ps ss. cs = ps @ sub @ ss)"
  proof
    assume "\<exists>ps ss. c # cs = ps @ sub @ ss"
    then obtain ps ss where e: "c # cs = ps @ sub @ ss" by blast
    show "prefix sub (c # cs) \<or> (\<exists>ps ss. cs = ps @ sub @ ss)"
    proof (cases ps)
      case Nil
      with e show ?thesis by (simp add: prefix_def)
    next
      case (Cons p ps')
      with e have "cs = ps' @ sub @ ss" by simp
      then show ?thesis by blast
    qed
  next
    assume "prefix sub (c # cs) \<or> (\<exists>ps ss. cs = ps @ sub @ ss)"
    then show "\<exists>ps ss. c # cs = ps @ sub @ ss"
    proof
      assume "prefix sub (c # cs)"
      then obtain ss where "c # cs = sub @ ss" by (auto simp: prefix_def)
      then have "c # cs = [] @ sub @ ss" by simp
      then show ?thesis by blast
    next
      assume "\<exists>ps ss. cs = ps @ sub @ ss"
      then obtain ps ss where "cs = ps @ sub @ ss" by blast
      then have "c # cs = (c # ps) @ sub @ ss" by simp
      then show ?thesis by blast
    qed
  qed
  with Cons show ?case by simp
qed

lemma str_in_seg_name: "str_in ''_seg'' (stem @ ''_seg.tiff'')"
proof -
  have "stem @ ''_seg.tiff'' = stem @ ''_seg'' @ ''.tiff''" by simp
  then show ?thesis unfolding str_in_iff by blast
qed

lemma str_rfind_Some: "str_rfind c xs = Some i \<Longrightarrow> i < length xs \<and> xs ! i = c"
  by (induction xs arbitrary: i) (auto split: option.splits if_splits)

lemma stem_suffix: "Path_stem name @ Path_suffix name = name"
  by (simp add: Path_stem_def Path_suffix_def split: option.splits)

lemma suffix_dot: "Path_suffix name = [] \<or> hd (Path_suffix name) = CHR ''.''"
  by (auto simp: Path_suffix_def hd_drop_conv_nth dest: str_rfind_Some split: option.splits)

lemma seg_name_neq: "Path_stem name @ ''_seg.tiff'' \<noteq> name"
proof
  assume "Path_stem name @ ''_seg.tiff'' = name"
  then have "Path_stem name @ ''_seg.tiff'' = Path_stem name @ Path_suffix name"
    by (simp add: stem_suffix)
  then have "Path_suffix name = ''_seg.tiff''" by simp
  with suffix_dot [of name] show False by auto
qed



section \<open>The two branches of the loop body\<close>

lemma infer_image_2d:
  assumes rd: "imread w (d, f) = Some a"
      and br: "Path_suffix f \<in> set [''.jpg'', ''.jpeg'', ''.png'']
             \<or> ((Path_suffix f \<in> set [''.tiff'', ''.tif''] \<and> length (shape L a) = 2)
                 \<or> (length (shape L a) = 3 \<and> (last (shape L a) = 3 \<or> last (shape L a) = 4)))"
      and len: "2 \<le> length (shape L a)"
      and mx: "0 < max (shape L a ! 0) (shape L a ! 1)"
  shows "infer_image L d f w =
           (None, imsave (d, mask_name f) (strategy_2d L a) (emit (ModelEval f) w))"
proof -
  from len have nl: "\<not> length (shape L a) < 2" by simp
  from mx have "max (shape L a ! 0) (shape L a ! 1) \<noteq> 0" by linarith
  then have nz: "(of_nat (max (shape L a ! 0) (shape L a ! 1)) / 512 :: rat) \<noteq> 0" by simp
  show ?thesis
    unfolding infer_image_def Let_def rd option.case if_P [OF br] if_not_P [OF nl]
      if_not_P [OF nz] strategy_2d_def mask_name_def
    by simp
qed

lemma infer_image_3d:
  assumes rd: "imread w (d, f) = Some a"
      and nbr: "\<not> (Path_suffix f \<in> set [''.jpg'', ''.jpeg'', ''.png'']
             \<or> ((Path_suffix f \<in> set [''.tiff'', ''.tif''] \<and> length (shape L a) = 2)
                 \<or> (length (shape L a) = 3 \<and> (last (shape L a) = 3 \<or> last (shape L a) = 4))))"
      and br: "Path_suffix f \<in> set [''.tiff'', ''.tif''] \<and> length (shape L a) = 3"
      and mx: "0 < max (shape L a ! 1) (shape L a ! 2)"
  shows "infer_image L d f w =
           (None, imsave (d, mask_name f) (strategy_3d L a)
                    (emit (ModelEval f) (emit (Printed StackWarning) w)))"
proof -
  from mx have "max (shape L a ! 1) (shape L a ! 2) \<noteq> 0" by linarith
  then have nz: "(of_nat (max (shape L a ! 1) (shape L a ! 2)) / 512 :: rat) \<noteq> 0" by simp
  show ?thesis
    unfolding infer_image_def Let_def rd option.case if_not_P [OF nbr] if_P [OF br]
      if_not_P [OF nz] strategy_3d_def mask_name_def
    by simp
qed


section \<open>The resolution of the saved mask\<close>

lemma take_two: "\<not> length s < 2 \<Longrightarrow> take 2 s = [s ! 0, s ! 1]"
  by (cases s; cases "tl s") auto

lemma three_entries: "length s = 3 \<Longrightarrow> [s ! 0, s ! 1, s ! 2] = s"
  by (cases s; cases "tl s"; cases "tl (tl s)") auto

text \<open>
  C2. Whenever the loop body processes an image without exiting or raising, the
  one file it writes is the mask, and the mask has been resized to the resolution of
  the original: the first two entries of the original shape for an image handled as
  2D, the whole original shape (depth, height, width) for a 3D stack. The libraries
  are assumed to meet their documented contracts.
\<close>

theorem saved_mask_has_original_resolution:
  assumes rc: "resize_contract L" and ec: "eval_contract L"
      and rd: "imread w (d, f) = Some a"
      and run: "infer_image L d f w = (None, w')"
  shows "\<exists>mask. files w' = AList.update (d, Path_stem f @ ''_seg.tiff'') mask (files w)
           \<and> shape L mask =
               (if Path_suffix f \<in> set [''.tiff'', ''.tif''] \<and> length (shape L a) = 3
                   \<and> \<not> (last (shape L a) = 3 \<or> last (shape L a) = 4)
                then shape L a else take 2 (shape L a))"
proof -
  have r2: "shape L (resize L (model_eval L x None) [h, v]) = [h, v]" for x h v
  proof -
    from ec have "length (shape L (model_eval L x None)) \<le> 2"
      unfolding eval_contract_def by blast
    then have "length (shape L (model_eval L x None)) \<le> length [h, v]" by simp
    then show ?thesis using rc unfolding resize_contract_def by blast
  qed
  have r3: "shape L (resize L (model_eval L x (Some 0)) [k, h, v]) = [k, h, v]" for x k h v
  proof -
    from ec have "length (shape L (model_eval L x (Some 0))) \<le> 3"
      unfolding eval_contract_def by blast
    then have "length (shape L (model_eval L x (Some 0))) \<le> length [k, h, v]" by simp
    then show ?thesis using rc unfolding resize_contract_def by blast
  qed
  show ?thesis
  proof (cases "Path_suffix f \<in> set [''.jpg'', ''.jpeg'', ''.png'']
             \<or> ((Path_suffix f \<in> set [''.tiff'', ''.tif''] \<and> length (shape L a) = 2)
                 \<or> (length (shape L a) = 3 \<and> (last (shape L a) = 3 \<or> last (shape L a) = 4)))")
    case True
    from run have len: "\<not> length (shape L a) < 2"
      unfolding infer_image_def Let_def rd option.case if_P [OF True]
      by (auto split: if_splits)
    from True have n3: "\<not> (Path_suffix f \<in> set [''.tiff'', ''.tif''] \<and> length (shape L a) = 3
                   \<and> \<not> (last (shape L a) = 3 \<or> last (shape L a) = 4))"
      by auto
    from run have "files w' = AList.update (d, Path_stem f @ ''_seg.tiff'')
        (resize L (model_eval L
            (rescale L a (1 / (of_nat (max (shape L a ! 0) (shape L a ! 1)) / 512)) None) None)
          [shape L a ! 0, shape L a ! 1]) (files w)"
      unfolding infer_image_def Let_def rd option.case if_P [OF True] if_not_P [OF len]
      by (auto simp: imsave_def emit_def split: if_splits)
    then show ?thesis
      unfolding if_not_P [OF n3] using r2 take_two [OF len] by metis
  next
    case False
    from run have br: "Path_suffix f \<in> set [''.tiff'', ''.tif''] \<and> length (shape L a) = 3"
      unfolding infer_image_def Let_def rd option.case if_not_P [OF False]
      by (auto split: if_splits)
    with False have c3: "Path_suffix f \<in> set [''.tiff'', ''.tif''] \<and> length (shape L a) = 3
                   \<and> \<not> (last (shape L a) = 3 \<or> last (shape L a) = 4)"
      by auto
    from br have l3: "length (shape L a) = 3" by simp
    from run have "files w' = AList.update (d, Path_stem f @ ''_seg.tiff'')
        (resize L (model_eval L
            (rescale L a (1 / (of_nat (max (shape L a ! 1) (shape L a ! 2)) / 512)) (Some 0))
              (Some 0))
          [shape L a ! 0, shape L a ! 1, shape L a ! 2]) (files w)"
      unfolding infer_image_def Let_def rd option.case if_not_P [OF False] if_P [OF br]
      by (auto simp: imsave_def emit_def split: if_splits)
    then show ?thesis
      unfolding if_P [OF c3] using r3 three_entries [OF l3] by metis
  qed
qed

theorem saved_mask_has_original_resolution_witness:
  "resize_contract example_libs \<and> eval_contract example_libs
   \<and> imread example_world (''ev'', ''b.tif'') = Some [5, 10, 20]
   \<and> infer_image example_libs ''ev'' ''b.tif'' example_world =
       (None, imsave (''ev'', ''b_seg.tiff'') [5, 10, 20]
                (emit (ModelEval ''b.tif'') (emit (Printed StackWarning) example_world)))
   \<and> (\<exists>mask. files (imsave (''ev'', ''b_seg.tiff'') [5, 10, 20]
                       (emit (ModelEval ''b.tif'') (emit (Printed StackWarning) example_world)))
                = AList.update (''ev'', ''b_seg.tiff'') mask (files example_world)
              \<and> shape example_libs mask = [5, 10, 20])"
proof -
  have rc: "resize_contract example_libs"
    by (simp add: resize_contract_def example_libs_def)
  have ec: "eval_contract example_libs"
    by (simp add: eval_contract_def example_libs_def)
  have rd: "imread example_world (''ev'', ''b.tif'') = Some [5, 10, 20]"
    by (simp add: imread_def example_world_def)
  have run: "infer_image example_libs ''ev'' ''b.tif'' example_world =
       (None, imsave (''ev'', ''b_seg.tiff'') [5, 10, 20]
                (emit (ModelEval ''b.tif'') (emit (Printed StackWarning) example_world)))"
    by (simp add: infer_image_def imread_def example_world_def example_libs_def
          Path_suffix_def Path_stem_def Let_def)
  have "\<exists>mask. files (imsave (''ev'', ''b_seg.tiff'') [5, 10, 20]
                       (emit (ModelEval ''b.tif'') (emit (Printed StackWarning) example_world)))
                = AList.update (''ev'', ''b_seg.tiff'') mask (files example_world)
              \<and> shape example_libs mask = [5, 10, 20]"
    using saved_mask_has_original_resolution [OF rc ec rd run]
    by (simp add: Path_suffix_def Path_stem_def example_libs_def)
  with rc ec rd run show ?thesis by blast
qed


section \<open>What the loop does to the files\<close>

lemma files_emit [simp]: "files (emit e w) = files w"
  by (simp add: emit_def)

lemma trace_emit [simp]: "trace (emit e w) = trace w @ [e]"
  by (simp add: emit_def)

lemma files_imsave [simp]: "files (imsave p a w) = AList.update p a (files w)"
  by (simp add: imsave_def)

lemma trace_imsave [simp]: "trace (imsave p a w) = trace w"
  by (simp add: imsave_def)

lemma exists_iff: "os_path_exists w p \<longleftrightarrow> (\<exists>a. map_of (files w) p = Some a)"
  by (simp add: os_path_exists_def)

lemma listdir_iff: "n \<in> set (os_listdir w d) \<longleftrightarrow> os_path_exists w (d, n)"
proof -
  have "n \<in> set (os_listdir w d) \<longleftrightarrow> (d, n) \<in> fst ` set (files w)"
    by (force simp: os_listdir_def)
  also have "\<dots> \<longleftrightarrow> map_of (files w) (d, n) \<noteq> None"
    by (simp add: map_of_eq_None_iff)
  finally show ?thesis by (simp add: os_path_exists_def)
qed

text \<open>What one pass of the loop body does to the files.\<close>

lemma infer_image_files:
  assumes "infer_image L d f w = (r, w')"
  shows "(r = None \<longrightarrow> (\<exists>mask. files w' = AList.update (d, mask_name f) mask (files w)))
       \<and> (r \<noteq> None \<longrightarrow> files w' = files w)"
  using assms unfolding infer_image_def mask_name_def Let_def
  by (auto split: option.splits if_splits)

lemma infer_image_keeps:
  assumes "infer_image L d f w = (r, w')" and "p \<noteq> (d, mask_name f)"
  shows "map_of (files w') p = map_of (files w) p"
proof (cases r)
  case None
  with infer_image_files [OF assms(1)] obtain mask
    where "files w' = AList.update (d, mask_name f) mask (files w)" by blast
  with assms(2) show ?thesis by (simp add: update_conv')
next
  case (Some s)
  with infer_image_files [OF assms(1)] show ?thesis by simp
qed

lemma mask_name_seg: "str_in ''_seg'' (mask_name f)"
  unfolding mask_name_def by (rule str_in_seg_name)

lemma infer_image_keeps_images:
  assumes "infer_image L d f w = (r, w')" and "\<not> str_in ''_seg'' g"
  shows "map_of (files w') (d', g) = map_of (files w) (d', g)"
proof -
  from assms(2) mask_name_seg [of f] have "g \<noteq> mask_name f" by auto
  then show ?thesis using infer_image_keeps [OF assms(1)] by simp
qed

lemma inference_loop_keeps_images:
  assumes "inference_loop L d fs w = (r, w')" and "\<not> str_in ''_seg'' g"
  shows "map_of (files w') (d', g) = map_of (files w) (d', g)"
  using assms(1)
proof (induction fs arbitrary: w)
  case Nil
  then show ?case by simp
next
  case (Cons f fs)
  show ?case
  proof (cases "str_in ''_seg'' f")
    case True
    with Cons show ?thesis by simp
  next
    case False
    obtain r1 w1 where s: "infer_image L d f w = (r1, w1)" by (cases "infer_image L d f w")
    have k: "map_of (files w1) (d', g) = map_of (files w) (d', g)"
      by (rule infer_image_keeps_images [OF s assms(2)])
    show ?thesis
    proof (cases r1)
      case None
      with Cons.prems False s have "inference_loop L d fs w1 = (r, w')" by simp
      from Cons.IH [OF this] k show ?thesis by simp
    next
      case (Some st)
      with Cons.prems False s have "w' = w1" by simp
      with k show ?thesis by simp
    qed
  qed
qed

lemma inference_loop_append:
  "inference_loop L d (xs @ ys) w =
     (case inference_loop L d xs w of
        (None, w1) \<Rightarrow> inference_loop L d ys w1
      | (Some s, w1) \<Rightarrow> (Some s, w1))"
  by (induction xs arbitrary: w) (auto split: prod.splits option.splits)

lemma run_inference_step:
  assumes lst: "list_files w (eval_data_path M) = pre @ f # post"
      and unl: "\<not> str_in ''_seg'' f"
      and reached: "inference_loop L (eval_data_path M) pre w = (None, w1)"
  shows "run_inference L M w =
           (case infer_image L (eval_data_path M) f w1 of
              (None, w2) \<Rightarrow> inference_loop L (eval_data_path M) post w2
            | (Some s, w2) \<Rightarrow> (Some s, w2))"
  unfolding run_inference_def lst inference_loop_append reached
  using unl by simp

lemma infer_image_exit:
  assumes "infer_image L d f w = (Some SysExit, w')"
  shows "w' = emit (Printed UnsupportedImage) w
       \<and> (\<exists>a. imread w (d, f) = Some a \<and> unsupported_shape f (shape L a))"
  using assms unfolding infer_image_def unsupported_shape_def Let_def
  by (auto split: option.splits if_splits)

lemma inference_loop_exit:
  assumes "inference_loop L d fs w = (Some SysExit, w')"
  shows "\<exists>pre f post w1. fs = pre @ f # post \<and> \<not> str_in ''_seg'' f
           \<and> inference_loop L d pre w = (None, w1)
           \<and> infer_image L d f w1 = (Some SysExit, w')"
  using assms
proof (induction fs arbitrary: w)
  case Nil
  then show ?case by simp
next
  case (Cons g gs)
  show ?case
  proof (cases "str_in ''_seg'' g")
    case True
    with Cons.prems have "inference_loop L d gs w = (Some SysExit, w')" by simp
    from Cons.IH [OF this] obtain pre f post w1
      where "gs = pre @ f # post" "\<not> str_in ''_seg'' f"
        "inference_loop L d pre w = (None, w1)" "infer_image L d f w1 = (Some SysExit, w')"
      by blast
    with True have "g # gs = (g # pre) @ f # post \<and> \<not> str_in ''_seg'' f
           \<and> inference_loop L d (g # pre) w = (None, w1)
           \<and> infer_image L d f w1 = (Some SysExit, w')" by simp
    then show ?thesis by blast
  next
    case False
    obtain r1 w2 where s: "infer_image L d g w = (r1, w2)" by (cases "infer_image L d g w")
    show ?thesis
    proof (cases r1)
      case None
      with Cons.prems False s have "inference_loop L d gs w2 = (Some SysExit, w')" by simp
      from Cons.IH [OF this] obtain pre f post w1
        where "gs = pre @ f # post" "\<not> str_in ''_seg'' f"
          "inference_loop L d pre w2 = (None, w1)" "infer_image L d f w1 = (Some SysExit, w')"
        by blast
      with False s None have "g # gs = (g # pre) @ f # post \<and> \<not> str_in ''_seg'' f
           \<and> inference_loop L d (g # pre) w = (None, w1)
           \<and> infer_image L d f w1 = (Some SysExit, w')" by simp
      then show ?thesis by blast
    next
      case (Some st)
      with Cons.prems False s have "infer_image L d g w = (Some SysExit, w')" by simp
      with False have "g # gs = [] @ g # gs \<and> \<not> str_in ''_seg'' g
           \<and> inference_loop L d [] w = (None, w)
           \<and> infer_image L d g w = (Some SysExit, w')" by simp
      then show ?thesis by blast
    qed
  qed
qed


section \<open>Exit on an unsupported shape\<close>

text \<open>
  C7. When \<open>run_inference\<close> exits on an image of unsupported shape, the files at the
  exit are exactly the files as they were when the images listed before the
  offending one had been processed: nothing is written for the offending image, and
  the masks written for the earlier images stay as they are (no rollback).
\<close>

theorem exit_leaves_earlier_masks:
  assumes "run_inference L M w = (Some SysExit, w')"
  shows "\<exists>pre f post w1 a.
           list_files w (eval_data_path M) = pre @ f # post
         \<and> inference_loop L (eval_data_path M) pre w = (None, w1)
         \<and> imread w1 (eval_data_path M, f) = Some a
         \<and> unsupported_shape f (shape L a)
         \<and> files w' = files w1"
proof -
  from assms have "inference_loop L (eval_data_path M) (list_files w (eval_data_path M)) w
      = (Some SysExit, w')" by (simp add: run_inference_def)
  from inference_loop_exit [OF this] obtain pre f post w1
    where l: "list_files w (eval_data_path M) = pre @ f # post"
      and p: "inference_loop L (eval_data_path M) pre w = (None, w1)"
      and e: "infer_image L (eval_data_path M) f w1 = (Some SysExit, w')"
    by blast
  from infer_image_exit [OF e] obtain a
    where "w' = emit (Printed UnsupportedImage) w1"
      and "imread w1 (eval_data_path M, f) = Some a" and "unsupported_shape f (shape L a)"
    by blast
  with l p show ?thesis by auto
qed

theorem exit_leaves_earlier_masks_witness:
  "run_inference example_libs example_main stack4_world =
     (Some SysExit,
      \<lparr>files = [((''ev'', ''a.png''), [10, 20, 3]),
                ((''ev'', ''c.tif''), [2, 3, 4, 5]),
                ((''ev'', ''b.tif''), [5, 10, 20]),
                ((''ev'', ''a_seg.tiff''), [10, 20])],
       trace = [ModelEval ''a.png'', Printed UnsupportedImage]\<rparr>)
   \<and> (\<exists>pre f post w1 a.
         list_files stack4_world (eval_data_path example_main) = pre @ f # post
       \<and> inference_loop example_libs (eval_data_path example_main) pre stack4_world = (None, w1)
       \<and> imread w1 (eval_data_path example_main, f) = Some a
       \<and> unsupported_shape f (shape example_libs a)
       \<and> [((''ev'', ''a.png''), [10, 20, 3]),
           ((''ev'', ''c.tif''), [2, 3, 4, 5]),
           ((''ev'', ''b.tif''), [5, 10, 20]),
           ((''ev'', ''a_seg.tiff''), [10, 20])] = files w1)"
proof -
  have run: "run_inference example_libs example_main stack4_world =
     (Some SysExit,
      \<lparr>files = [((''ev'', ''a.png''), [10, 20, 3]),
                ((''ev'', ''c.tif''), [2, 3, 4, 5]),
                ((''ev'', ''b.tif''), [5, 10, 20]),
                ((''ev'', ''a_seg.tiff''), [10, 20])],
       trace = [ModelEval ''a.png'', Printed UnsupportedImage]\<rparr>)"
    by (simp add: run_inference_def list_files_def os_listdir_def stack4_world_def
          example_main_def MainWindow_init_def accepted_types_def infer_image_def
          imread_def imsave_def emit_def example_libs_def Path_suffix_def Path_stem_def Let_def)
  from exit_leaves_earlier_masks [OF run] run show ?thesis by simp
qed


section \<open>The callbacks of the windows\<close>

lemma emit_neq: "emit e w \<noteq> w"
proof
  assume "emit e w = w"
  then have "trace (emit e w) = trace w" by simp
  then show False by simp
qed

lemma get_layer_names_eq: "get_layer_names ls = map layer_name (filter is_Labels ls)"
  by (simp add: get_layer_names_def Let_def)

lemma get_layer_names_Nil: "get_layer_names ls = [] \<longleftrightarrow> (\<forall>l \<in> set ls. \<not> is_Labels l)"
  by (simp add: get_layer_names_eq filter_empty_conv)

lemma layers_getitem_first:
  assumes "get_layer_names ls = n # ns"
  shows "\<exists>l. layers_getitem ls n = Inr l \<and> l \<in> set ls \<and> layer_name l = n"
proof -
  from assms have "n \<in> set (map layer_name (filter is_Labels ls))"
    by (simp add: get_layer_names_eq)
  then obtain k where k: "k \<in> set ls" "layer_name k = n" by auto
  then have "find (\<lambda>l. layer_name l = n) ls \<noteq> None" by (auto simp: find_None_iff)
  then obtain l where f: "find (\<lambda>l. layer_name l = n) ls = Some l" by auto
  then have "l \<in> set ls \<and> layer_name l = n" by (auto simp: find_Some_iff)
  with f show ?thesis by (simp add: layers_getitem_def)
qed

text \<open>
  C8. \<open>on_add_button_clicked\<close> indexes the first name of the Labels layers; when the
  viewer has no Labels layer the indexing raises \<open>IndexError\<close> before \<open>os.replace\<close>
  is reached, and neither the window nor any file of either folder is changed.
\<close>

theorem click_without_labels_changes_nothing:
  assumes "\<forall>l \<in> set (layers W). \<not> is_Labels l"
  shows "on_add_button_clicked W w = (Some (Raised IndexError), W, w)"
proof -
  from assms have "get_layer_names (layers W) = []" by (simp add: get_layer_names_Nil)
  then show ?thesis by (simp add: on_add_button_clicked_def)
qed

theorem click_without_labels_changes_nothing_witness:
  "filter is_Labels (layers unlabeled_viewer) = []
   \<and> on_add_button_clicked unlabeled_viewer example_world =
       (Some (Raised IndexError), unlabeled_viewer, example_world)"
proof -
  have h: "\<forall>l \<in> set (layers unlabeled_viewer). \<not> is_Labels l"
    by (simp add: unlabeled_viewer_def)
  have "filter is_Labels (layers unlabeled_viewer) = []"
    by (simp add: unlabeled_viewer_def)
  with click_without_labels_changes_nothing [OF h] show ?thesis by blast
qed

text \<open>
  C9. \<open>start_main\<close> creates the main window, on the two chosen folders, and hides the
  welcome window exactly when both folder strings are non-empty; when either is
  empty it shows the warning box and leaves the welcome window as it was: no main
  window is created and the welcome window is not hidden.
\<close>

theorem start_main_needs_both_folders:
  "(filename_val W \<noteq> [] \<and> filename_train W \<noteq> [] \<longrightarrow>
      start_main W w =
        (W\<lparr>hidden := True,
           mw := Some (MainWindow_init (filename_val W) (filename_train W))\<rparr>, w))
   \<and> (filename_val W = [] \<or> filename_train W = [] \<longrightarrow>
      start_main W w = (W, emit (MessageBox SelectFoldersWarning) w))"
  by (auto simp: start_main_def)

theorem start_main_needs_both_folders_witness:
  "filename_val example_welcome \<noteq> [] \<and> filename_train example_welcome \<noteq> []
   \<and> start_main example_welcome example_world =
       (\<lparr>filename_train = ''tr'', filename_val = ''ev'', hidden = True,
         mw = Some (MainWindow_init ''ev'' ''tr'')\<rparr>, example_world)
   \<and> filename_train empty_welcome = []
   \<and> start_main empty_welcome example_world =
       (empty_welcome, emit (MessageBox SelectFoldersWarning) example_world)"
  using start_main_needs_both_folders [of example_welcome example_world]
        start_main_needs_both_folders [of empty_welcome example_world]
  by (simp add: example_welcome_def empty_welcome_def)

lemma launch_warns:
  assumes "cur_selected_img M = None \<or> cur_selected_img M = Some []
      \<or> (\<exists>s. cur_selected_img M = Some s \<and> str_in ''_seg.tiff'' s)"
  shows "launch_napari_window M w = (None, M, emit (MessageBox SelectImageWarning) w)"
  using assms by (auto simp: launch_napari_window_def)

lemma NapariWindow_init_found:
  assumes "os_path_exists w (e, s) \<or> os_path_exists w (t, s)"
  shows "\<exists>nw. NapariWindow_init s e t w = Inr nw \<and> img_filename nw = s"
proof -
  have "\<exists>im. imread w (if os_path_exists w (e, s) then e else t, s) = Some im"
  proof (cases "os_path_exists w (e, s)")
    case True
    then show ?thesis by (simp add: imread_def os_path_exists_def)
  next
    case False
    with assms have "os_path_exists w (t, s)" by simp
    with False show ?thesis by (simp add: imread_def os_path_exists_def)
  qed
  then obtain im where "imread w (if os_path_exists w (e, s) then e else t, s) = Some im"
    by blast
  then show ?thesis by (simp add: NapariWindow_init_def Let_def)
qed

lemma NapariWindow_init_missing:
  assumes "\<not> os_path_exists w (e, s)" and "\<not> os_path_exists w (t, s)"
  shows "NapariWindow_init s e t w = Inl FileNotFoundError"
  using assms by (simp add: NapariWindow_init_def Let_def imread_def os_path_exists_def)

lemma launch_opens:
  assumes "cur_selected_img M = Some s" and "s \<noteq> []" and "\<not> str_in ''_seg.tiff'' s"
      and "os_path_exists w (eval_data_path M, s) \<or> os_path_exists w (train_data_path M, s)"
  shows "\<exists>nw. NapariWindow_init s (eval_data_path M) (train_data_path M) w = Inr nw
            \<and> img_filename nw = s
            \<and> launch_napari_window M w = (None, M\<lparr>nap_win := Some nw\<rparr>, w)"
proof -
  from NapariWindow_init_found [OF assms(4)] obtain nw
    where "NapariWindow_init s (eval_data_path M) (train_data_path M) w = Inr nw"
      and "img_filename nw = s" by blast
  with assms(1-3) show ?thesis by (auto simp: launch_napari_window_def)
qed

lemma launch_raises:
  assumes "cur_selected_img M = Some s" and "s \<noteq> []" and "\<not> str_in ''_seg.tiff'' s"
      and "\<not> os_path_exists w (eval_data_path M, s)"
      and "\<not> os_path_exists w (train_data_path M, s)"
  shows "launch_napari_window M w = (Some (Raised FileNotFoundError), M, w)"
  using assms(1-3) NapariWindow_init_missing [OF assms(4,5)]
  by (simp add: launch_napari_window_def)

lemma launch_opened_only:
  assumes "launch_napari_window M w = (None, M\<lparr>nap_win := Some nw\<rparr>, w)"
  shows "\<exists>s. cur_selected_img M = Some s \<and> s \<noteq> [] \<and> \<not> str_in ''_seg.tiff'' s
           \<and> (os_path_exists w (eval_data_path M, s) \<or> os_path_exists w (train_data_path M, s))"
proof (rule ccontr)
  assume n: "\<not> (\<exists>s. cur_selected_img M = Some s \<and> s \<noteq> [] \<and> \<not> str_in ''_seg.tiff'' s
           \<and> (os_path_exists w (eval_data_path M, s) \<or> os_path_exists w (train_data_path M, s)))"
  show False
  proof (cases "cur_selected_img M = None \<or> cur_selected_img M = Some []
      \<or> (\<exists>s. cur_selected_img M = Some s \<and> str_in ''_seg.tiff'' s)")
    case True
    from launch_warns [OF this] assms have "emit (MessageBox SelectImageWarning) w = w" by simp
    then show False by (simp add: emit_neq)
  next
    case False
    then obtain s where s: "cur_selected_img M = Some s" "s \<noteq> []" "\<not> str_in ''_seg.tiff'' s"
      by (cases "cur_selected_img M") auto
    with n have "\<not> os_path_exists w (eval_data_path M, s)"
      and "\<not> os_path_exists w (train_data_path M, s)" by auto
    from launch_raises [OF s this] assms show False by simp
  qed
qed

text \<open>
  C10, as stated, fails when the selected name is a file of neither folder (a row
  inside a sub-folder, or a file removed since it was selected): an image is
  selected and its name does not contain \<open>_seg.tiff\<close>, but the viewer's
  constructor raises \<open>FileNotFoundError\<close>; no viewer is opened and no warning is
  shown.
\<close>

theorem selected_file_missing_counterexample:
  "cur_selected_img stale_main = Some ''gone.png''
   \<and> \<not> str_in ''_seg.tiff'' ''gone.png''
   \<and> launch_napari_window stale_main example_world =
       (Some (Raised FileNotFoundError), stale_main, example_world)"
  by (simp add: stale_main_def item_eval_selected_def example_main_def MainWindow_init_def
        launch_napari_window_def NapariWindow_init_def os_path_exists_def imread_def
        example_world_def Let_def)

text \<open>
  C10, amended. \<open>launch_napari_window\<close> opens a viewer if and only if an image is
  selected, its name does not contain \<open>_seg.tiff\<close>, and a file of that name is in
  the uncurated or the curated folder. When nothing is selected or the selected
  name contains \<open>_seg.tiff\<close>, it shows the warning box and creates no viewer. When
  the selected name is a file of neither folder, it raises \<open>FileNotFoundError\<close>,
  with no viewer and no warning.
\<close>

theorem launch_napari_window_cases:
  "((cur_selected_img M = None \<or> cur_selected_img M = Some []
      \<or> (\<exists>s. cur_selected_img M = Some s \<and> str_in ''_seg.tiff'' s)) \<longrightarrow>
      launch_napari_window M w = (None, M, emit (MessageBox SelectImageWarning) w))
   \<and> (\<forall>s. cur_selected_img M = Some s \<and> s \<noteq> [] \<and> \<not> str_in ''_seg.tiff'' s
          \<and> (os_path_exists w (eval_data_path M, s) \<or> os_path_exists w (train_data_path M, s))
        \<longrightarrow> (\<exists>nw. NapariWindow_init s (eval_data_path M) (train_data_path M) w = Inr nw
                 \<and> img_filename nw = s
                 \<and> launch_napari_window M w = (None, M\<lparr>nap_win := Some nw\<rparr>, w)))
   \<and> (\<forall>s. cur_selected_img M = Some s \<and> s \<noteq> [] \<and> \<not> str_in ''_seg.tiff'' s
          \<and> \<not> os_path_exists w (eval_data_path M, s)
          \<and> \<not> os_path_exists w (train_data_path M, s)
        \<longrightarrow> launch_napari_window M w = (Some (Raised FileNotFoundError), M, w))
   \<and> ((\<exists>nw. launch_napari_window M w = (None, M\<lparr>nap_win := Some nw\<rparr>, w)) \<longrightarrow>
        (\<exists>s. cur_selected_img M = Some s \<and> s \<noteq> [] \<and> \<not> str_in ''_seg.tiff'' s
           \<and> (os_path_exists w (eval_data_path M, s)
                \<or> os_path_exists w (train_data_path M, s))))"
proof (intro conjI impI allI)
  assume "cur_selected_img M = None \<or> cur_selected_img M = Some []
      \<or> (\<exists>s. cur_selected_img M = Some s \<and> str_in ''_seg.tiff'' s)"
  then show "launch_napari_window M w = (None, M, emit (MessageBox SelectImageWarning) w)"
    by (rule launch_warns)
next
  fix s
  assume "cur_selected_img M = Some s \<and> s \<noteq> [] \<and> \<not> str_in ''_seg.tiff'' s
          \<and> (os_path_exists w (eval_data_path M, s) \<or> os_path_exists w (train_data_path M, s))"
  then show "\<exists>nw. NapariWindow_init s (eval_data_path M) (train_data_path M) w = Inr nw
                 \<and> img_filename nw = s
                 \<and> launch_napari_window M w = (None, M\<lparr>nap_win := Some nw\<rparr>, w)"
    using launch_opens by blast
next
  fix s
  assume "cur_selected_img M = Some s \<and> s \<noteq> [] \<and> \<not> str_in ''_seg.tiff'' s
          \<and> \<not> os_path_exists w (eval_data_path M, s)
          \<and> \<not> os_path_exists w (train_data_path M, s)"
  then show "launch_napari_window M w = (Some (Raised FileNotFoundError), M, w)"
    using launch_raises by blast
next
  assume "\<exists>nw. launch_napari_window M w = (None, M\<lparr>nap_win := Some nw\<rparr>, w)"
  then show "\<exists>s. cur_selected_img M = Some s \<and> s \<noteq> [] \<and> \<not> str_in ''_seg.tiff'' s
           \<and> (os_path_exists w (eval_data_path M, s)
                \<or> os_path_exists w (train_data_path M, s))"
    using launch_opened_only by blast
qed

theorem launch_napari_window_cases_witness:
  "cur_selected_img example_main = None
   \<and> launch_napari_window example_main example_world =
       (None, example_main, emit (MessageBox SelectImageWarning) example_world)
   \<and> cur_selected_img (item_eval_selected example_main ''a_seg.tiff'') = Some ''a_seg.tiff''
   \<and> str_in ''_seg.tiff'' ''a_seg.tiff''
   \<and> launch_napari_window (item_eval_selected example_main ''a_seg.tiff'') example_world =
       (None, item_eval_selected example_main ''a_seg.tiff'',
        emit (MessageBox SelectImageWarning) example_world)
   \<and> cur_selected_img (item_eval_selected example_main ''a.png'') = Some ''a.png''
   \<and> \<not> str_in ''_seg.tiff'' ''a.png''
   \<and> os_path_exists example_world (''ev'', ''a.png'')
   \<and> launch_napari_window (item_eval_selected example_main ''a.png'') example_world =
       (None,
        (item_eval_selected example_main ''a.png'')
          \<lparr>nap_win := Some \<lparr>eval_data_path = ''ev'', train_data_path = ''tr'',
                             img_filename = ''a.png'', img = [10, 20, 3],
                             layers = [Image ''Image'' [10, 20, 3], Labels ''seg'' [1, 1]],
                             closed = False\<rparr>\<rparr>,
        example_world)
   \<and> cur_selected_img stale_main = Some ''gone.png''
   \<and> \<not> os_path_exists example_world (''ev'', ''gone.png'')
   \<and> \<not> os_path_exists example_world (''tr'', ''gone.png'')
   \<and> launch_napari_window stale_main example_world =
       (Some (Raised FileNotFoundError), stale_main, example_world)"
  using launch_napari_window_cases [of example_main example_world]
        launch_napari_window_cases [of "item_eval_selected example_main ''a_seg.tiff''" example_world]
        launch_napari_window_cases [of "item_eval_selected example_main ''a.png''" example_world]
        launch_napari_window_cases [of stale_main example_world]
  by (simp add: example_main_def MainWindow_init_def item_eval_selected_def stale_main_def
        example_world_def os_path_exists_def NapariWindow_init_def imread_def
        Path_stem_def Let_def)


section \<open>Confirming a corrected label\<close>

lemma mask_name_neq: "mask_name n \<noteq> n"
  unfolding mask_name_def by (rule seg_name_neq)

text \<open>The files after a click that succeeds.\<close>

lemma on_add_files:
  assumes "on_add_button_clicked W w = (None, W', w')"
  shows "\<exists>first rest l a.
           get_layer_names (layers W) = first # rest
         \<and> layers_getitem (layers W) first = Inr l
         \<and> map_of (files w) (eval_data_path W, img_filename W) = Some a
         \<and> W' = W\<lparr>closed := True\<rparr>
         \<and> trace w' = trace w
         \<and> map_of (files w') =
             ((if eval_data_path W = train_data_path W then map_of (files w)
               else ((map_of (files w))((eval_data_path W, img_filename W) := None))
                       ((train_data_path W, img_filename W) \<mapsto> a))
              ((train_data_path W, mask_name (img_filename W)) \<mapsto> layer_data l))
              ((eval_data_path W, mask_name (img_filename W)) := None)"
  using assms
  unfolding on_add_button_clicked_def mask_name_def Let_def os_replace_def os_remove_def
    imsave_def os_path_exists_def
  by (auto split: list.splits sum.splits option.splits if_splits
        simp: update_conv' delete_conv' fun_eq_iff)

lemma on_add_succeeds:
  assumes "get_layer_names (layers W) \<noteq> []"
      and "imread w (eval_data_path W, img_filename W) = Some a"
  shows "\<exists>w'. on_add_button_clicked W w = (None, W\<lparr>closed := True\<rparr>, w')"
proof -
  from assms(1) obtain first rest where g: "get_layer_names (layers W) = first # rest"
    by (cases "get_layer_names (layers W)") auto
  from layers_getitem_first [OF g] obtain l where l: "layers_getitem (layers W) first = Inr l"
    by blast
  from assms(2) have m: "map_of (files w) (eval_data_path W, img_filename W) = Some a"
    by (simp add: imread_def)
  show ?thesis
    using g l m
    by (auto simp: on_add_button_clicked_def Let_def os_replace_def os_remove_def)
qed



text \<open>
  With two different folders a click that finds the image in the uncurated folder
  and a Labels layer in the viewer moves the pair: afterwards the image and the
  corrected mask are in the curated folder and neither is left in the uncurated
  one.
\<close>

lemma confirm_moves_pair:
  assumes dirs: "eval_data_path W \<noteq> train_data_path W"
      and present: "imread w (eval_data_path W, img_filename W) = Some a"
      and labelled: "get_layer_names (layers W) \<noteq> []"
  shows "\<exists>l w'. layers_getitem (layers W) (hd (get_layer_names (layers W))) = Inr l
           \<and> on_add_button_clicked W w = (None, W\<lparr>closed := True\<rparr>, w')
           \<and> imread w' (train_data_path W, img_filename W) = Some a
           \<and> imread w' (train_data_path W, mask_name (img_filename W)) = Some (layer_data l)
           \<and> \<not> os_path_exists w' (eval_data_path W, img_filename W)
           \<and> \<not> os_path_exists w' (eval_data_path W, mask_name (img_filename W))"
proof -
  from on_add_succeeds [OF labelled present] obtain w'
    where run: "on_add_button_clicked W w = (None, W\<lparr>closed := True\<rparr>, w')" by blast
  from on_add_files [OF run] obtain first rest l b where
        g: "get_layer_names (layers W) = first # rest"
    and l: "layers_getitem (layers W) first = Inr l"
    and b: "map_of (files w) (eval_data_path W, img_filename W) = Some b"
    and m: "map_of (files w') =
             ((if eval_data_path W = train_data_path W then map_of (files w)
               else ((map_of (files w))((eval_data_path W, img_filename W) := None))
                       ((train_data_path W, img_filename W) \<mapsto> b))
              ((train_data_path W, mask_name (img_filename W)) \<mapsto> layer_data l))
              ((eval_data_path W, mask_name (img_filename W)) := None)"
    by blast
  from b present have ab: "b = a" by (simp add: imread_def)
  have n: "mask_name (img_filename W) \<noteq> img_filename W" by (rule mask_name_neq)
  from g l have "layers_getitem (layers W) (hd (get_layer_names (layers W))) = Inr l" by simp
  moreover have "imread w' (train_data_path W, img_filename W) = Some a"
    using dirs n ab by (simp add: imread_def m)
  moreover have "imread w' (train_data_path W, mask_name (img_filename W)) = Some (layer_data l)"
    using dirs by (simp add: imread_def m)
  moreover have "\<not> os_path_exists w' (eval_data_path W, img_filename W)"
    using dirs n by (simp add: os_path_exists_def m)
  moreover have "\<not> os_path_exists w' (eval_data_path W, mask_name (img_filename W))"
    by (simp add: os_path_exists_def m)
  ultimately show ?thesis using run by blast
qed

lemma confirm_moves_pair_example:
  "eval_data_path example_viewer \<noteq> train_data_path example_viewer
   \<and> imread example_world (eval_data_path example_viewer, img_filename example_viewer)
        = Some [10, 20, 3]
   \<and> get_layer_names (layers example_viewer) \<noteq> []
   \<and> (\<exists>l w'. layers_getitem (layers example_viewer) (hd (get_layer_names (layers example_viewer)))
                = Inr l
           \<and> on_add_button_clicked example_viewer example_world
                = (None, example_viewer\<lparr>closed := True\<rparr>, w')
           \<and> imread w' (''tr'', ''a.png'') = Some [10, 20, 3]
           \<and> imread w' (''tr'', ''a_seg.tiff'') = Some (layer_data l)
           \<and> \<not> os_path_exists w' (''ev'', ''a.png'')
           \<and> \<not> os_path_exists w' (''ev'', ''a_seg.tiff''))"
proof -
  have d: "eval_data_path example_viewer \<noteq> train_data_path example_viewer"
    by (simp add: example_viewer_def)
  have p: "imread example_world (eval_data_path example_viewer, img_filename example_viewer)
        = Some [10, 20, 3]"
    by (simp add: example_viewer_def example_world_def imread_def)
  have g: "get_layer_names (layers example_viewer) \<noteq> []"
    by (simp add: example_viewer_def get_layer_names_def)
  from confirm_moves_pair [OF d p g] d p g show ?thesis
    by (simp add: example_viewer_def mask_name_def Path_stem_def)
qed

text \<open>
  C4. The click is meant to move the image and its corrected mask from the
  uncurated to the curated folder. When the user chose the same folder for both,
  the code does not do that: \<open>os.replace\<close> leaves the image where it is, the
  corrected mask is saved over the old one (line 120), and the test of line 121
  then finds that very file and line 122 removes it. The click succeeds, the image
  is still in the uncurated folder, and neither the old nor the corrected mask
  exists any more.
\<close>

theorem confirm_in_same_folder_loses_mask:
  "eval_data_path same_folder_viewer = train_data_path same_folder_viewer
   \<and> os_path_exists example_world (''ev'', ''a.png'')
   \<and> os_path_exists example_world (''ev'', ''a_seg.tiff'')
   \<and> on_add_button_clicked same_folder_viewer example_world =
     (None, same_folder_viewer\<lparr>closed := True\<rparr>,
      \<lparr>files = [((''ev'', ''a.png''), [10, 20, 3]),
                ((''ev'', ''b.tif''), [5, 10, 20]),
                ((''ev'', ''notes.txt''), [7, 7]),
                ((''tr'', ''z.png''), [3, 3])],
       trace = []\<rparr>)
   \<and> os_path_exists (snd (snd (on_add_button_clicked same_folder_viewer example_world)))
        (eval_data_path same_folder_viewer, img_filename same_folder_viewer)
   \<and> \<not> os_path_exists (snd (snd (on_add_button_clicked same_folder_viewer example_world)))
        (train_data_path same_folder_viewer, mask_name (img_filename same_folder_viewer))"
  by (simp add: on_add_button_clicked_def same_folder_viewer_def example_world_def
        get_layer_names_def layers_getitem_def os_replace_def os_remove_def imsave_def
        os_path_exists_def mask_name_def Path_stem_def Let_def)


section \<open>The images handed to the model\<close>

lemma model_calls_append: "model_calls (xs @ ys) = model_calls xs @ model_calls ys"
  by (induction xs rule: model_calls.induct) auto

lemma unlabeled_images_iff:
  "f \<in> set (unlabeled_images w d) \<longleftrightarrow>
     os_path_exists w (d, f) \<and> Path_suffix f \<in> set accepted_types \<and> \<not> str_in ''_seg'' f"
  by (auto simp: unlabeled_images_def list_files_def listdir_iff)

lemma distinct_unlabeled_images: "distinct (unlabeled_images w d)"
  by (simp add: unlabeled_images_def list_files_def os_listdir_def)

lemma infer_image_calls:
  assumes "infer_image L d f w = (r, w')"
  shows "model_calls (trace w') = model_calls (trace w) @ (if r = None then [f] else [])"
  using assms unfolding infer_image_def Let_def
  by (auto simp: model_calls_append split: option.splits if_splits)

lemma inference_loop_calls:
  assumes "inference_loop L d fs w = (r, w')"
  shows "\<exists>ks. model_calls (trace w') = model_calls (trace w) @ ks
           \<and> prefix ks (filter (\<lambda>f. \<not> str_in ''_seg'' f) fs)
           \<and> (r = None \<longrightarrow> ks = filter (\<lambda>f. \<not> str_in ''_seg'' f) fs)"
  using assms
proof (induction fs arbitrary: w)
  case Nil
  then show ?case by simp
next
  case (Cons g gs)
  show ?case
  proof (cases "str_in ''_seg'' g")
    case True
    with Cons.prems have "inference_loop L d gs w = (r, w')" by simp
    from Cons.IH [OF this] True show ?thesis by simp
  next
    case False
    obtain r1 w1 where s: "infer_image L d g w = (r1, w1)" by (cases "infer_image L d g w")
    note c = infer_image_calls [OF s]
    show ?thesis
    proof (cases r1)
      case None
      with Cons.prems False s have "inference_loop L d gs w1 = (r, w')" by simp
      from Cons.IH [OF this] obtain ks where
        "model_calls (trace w') = model_calls (trace w1) @ ks"
        "prefix ks (filter (\<lambda>f. \<not> str_in ''_seg'' f) gs)"
        "r = None \<longrightarrow> ks = filter (\<lambda>f. \<not> str_in ''_seg'' f) gs"
        by blast
      with c None False have "model_calls (trace w') = model_calls (trace w) @ (g # ks)
           \<and> prefix (g # ks) (filter (\<lambda>f. \<not> str_in ''_seg'' f) (g # gs))
           \<and> (r = None \<longrightarrow> g # ks = filter (\<lambda>f. \<not> str_in ''_seg'' f) (g # gs))"
        by simp
      then show ?thesis by blast
    next
      case (Some st)
      with Cons.prems False s have "r = Some st" "w' = w1" by simp_all
      with c Some have "model_calls (trace w') = model_calls (trace w) @ []
           \<and> prefix [] (filter (\<lambda>f. \<not> str_in ''_seg'' f) (g # gs))
           \<and> (r = None \<longrightarrow> [] = filter (\<lambda>f. \<not> str_in ''_seg'' f) (g # gs))"
        by simp
      then show ?thesis by blast
    qed
  qed
qed

lemma example_run:
  "run_inference example_libs example_main example_world =
     (None,
      \<lparr>files = [((''ev'', ''a.png''), [10, 20, 3]),
                ((''ev'', ''b.tif''), [5, 10, 20]),
                ((''ev'', ''a_seg.tiff''), [10, 20]),
                ((''ev'', ''notes.txt''), [7, 7]),
                ((''tr'', ''z.png''), [3, 3]),
                ((''ev'', ''b_seg.tiff''), [5, 10, 20])],
       trace = [ModelEval ''a.png'', Printed StackWarning, ModelEval ''b.tif'']\<rparr>)"
  by (simp add: run_inference_def list_files_def os_listdir_def example_world_def
        example_main_def MainWindow_init_def accepted_types_def infer_image_def
        imread_def imsave_def emit_def example_libs_def Path_suffix_def Path_stem_def Let_def)

text \<open>
  C6, as stated, fails for the curated folder: \<open>run_inference\<close> lists the uncurated
  folder only, so an unlabeled image of the curated folder is never handed to the
  model, even by a run that completes.
\<close>

theorem curated_folder_not_walked_counterexample:
  "''z.png'' \<in> set (unlabeled_images example_world (train_data_path example_main))
   \<and> fst (run_inference example_libs example_main example_world) = None
   \<and> ''z.png'' \<notin> set (model_calls
        (trace (snd (run_inference example_libs example_main example_world))))"
  unfolding example_run
  by (simp add: unlabeled_images_def list_files_def os_listdir_def example_world_def
        example_main_def MainWindow_init_def accepted_types_def Path_suffix_def)

text \<open>
  C6, amended. \<open>run_inference\<close> walks the uncurated folder only. The files it hands
  to the model are, in the order of the listing, unlabeled images of that folder
  (accepted suffix, no \<open>_seg\<close> in the name): all of them when the run completes, an
  initial part of them when it exits or raises. So files whose name contains
  \<open>_seg\<close>, files with another suffix and the files of the curated folder are never
  handed to the model.
\<close>

theorem run_inference_model_calls:
  assumes "run_inference L M w = (r, w')"
  shows "\<exists>ks. model_calls (trace w') = model_calls (trace w) @ ks
           \<and> prefix ks (unlabeled_images w (eval_data_path M))
           \<and> (r = None \<longrightarrow> ks = unlabeled_images w (eval_data_path M))
           \<and> (\<forall>f. f \<in> set (unlabeled_images w (eval_data_path M)) \<longleftrightarrow>
                  os_path_exists w (eval_data_path M, f)
                  \<and> Path_suffix f \<in> set accepted_types \<and> \<not> str_in ''_seg'' f)"
proof -
  from assms have "inference_loop L (eval_data_path M) (list_files w (eval_data_path M)) w
      = (r, w')" by (simp add: run_inference_def)
  from inference_loop_calls [OF this] show ?thesis
    unfolding unlabeled_images_def [symmetric] by (simp add: unlabeled_images_iff)
qed

theorem run_inference_model_calls_witness:
  "run_inference example_libs example_main example_world =
     (None,
      \<lparr>files = [((''ev'', ''a.png''), [10, 20, 3]),
                ((''ev'', ''b.tif''), [5, 10, 20]),
                ((''ev'', ''a_seg.tiff''), [10, 20]),
                ((''ev'', ''notes.txt''), [7, 7]),
                ((''tr'', ''z.png''), [3, 3]),
                ((''ev'', ''b_seg.tiff''), [5, 10, 20])],
       trace = [ModelEval ''a.png'', Printed StackWarning, ModelEval ''b.tif'']\<rparr>)
   \<and> unlabeled_images example_world (eval_data_path example_main) = [''a.png'', ''b.tif'']
   \<and> model_calls [ModelEval ''a.png'', Printed StackWarning, ModelEval ''b.tif'']
        = model_calls (trace example_world) @ [''a.png'', ''b.tif'']"
proof -
  have u: "unlabeled_images example_world (eval_data_path example_main) = [''a.png'', ''b.tif'']"
    by (simp add: unlabeled_images_def list_files_def os_listdir_def example_world_def
          example_main_def MainWindow_init_def accepted_types_def Path_suffix_def)
  from run_inference_model_calls [OF example_run] u
  have "model_calls [ModelEval ''a.png'', Printed StackWarning, ModelEval ''b.tif'']
        = model_calls (trace example_world) @ [''a.png'', ''b.tif'']"
    by auto
  with example_run u show ?thesis by blast
qed


section \<open>Which failures are reported\<close>


















section \<open>The strategy chosen for an image\<close>

text \<open>
  C1, as stated, fails for an unlabeled image that the run does not reach: after
  the exit at the four-dimensional \<open>c.tif\<close>, the stack \<open>b.tif\<close> listed behind it is
  neither evaluated nor given a mask. It also fails for an array without a height
  and a width to rescale by: an array of one dimension under the name
  \<open>line.png\<close> ends the run with \<open>IndexError\<close>, an empty one under \<open>e.tif\<close> with
  \<open>ZeroDivisionError\<close>.
\<close>

theorem later_image_not_reached_counterexample:
  "''b.tif'' \<in> set (unlabeled_images stack4_world (eval_data_path example_main))
   \<and> imread stack4_world (eval_data_path example_main, ''b.tif'') = Some [5, 10, 20]
   \<and> run_inference example_libs example_main stack4_world =
       (Some SysExit,
        \<lparr>files = [((''ev'', ''a.png''), [10, 20, 3]),
                  ((''ev'', ''c.tif''), [2, 3, 4, 5]),
                  ((''ev'', ''b.tif''), [5, 10, 20]),
                  ((''ev'', ''a_seg.tiff''), [10, 20])],
         trace = [ModelEval ''a.png'', Printed UnsupportedImage]\<rparr>)
   \<and> ''b.tif'' \<notin> set (model_calls
         (trace (snd (run_inference example_libs example_main stack4_world))))
   \<and> \<not> os_path_exists (snd (run_inference example_libs example_main stack4_world))
         (eval_data_path example_main, mask_name ''b.tif'')
   \<and> run_inference example_libs example_main flat_world =
       (Some (Raised IndexError), flat_world)
   \<and> run_inference example_libs example_main empty_image_world =
       (Some (Raised ZeroDivisionError), empty_image_world)"
proof -
  have ev: "eval_data_path example_main = ''ev''"
    by (simp add: example_main_def MainWindow_init_def)
  have run: "run_inference example_libs example_main stack4_world =
       (Some SysExit,
        \<lparr>files = [((''ev'', ''a.png''), [10, 20, 3]),
                  ((''ev'', ''c.tif''), [2, 3, 4, 5]),
                  ((''ev'', ''b.tif''), [5, 10, 20]),
                  ((''ev'', ''a_seg.tiff''), [10, 20])],
         trace = [ModelEval ''a.png'', Printed UnsupportedImage]\<rparr>)"
    by (simp add: run_inference_def list_files_def os_listdir_def stack4_world_def
          ev accepted_types_def infer_image_def
          imread_def imsave_def emit_def example_libs_def Path_suffix_def Path_stem_def Let_def)
  have u: "''b.tif'' \<in> set (unlabeled_images stack4_world (eval_data_path example_main))"
    by (simp add: unlabeled_images_def list_files_def os_listdir_def stack4_world_def
          ev accepted_types_def Path_suffix_def)
  have rd: "imread stack4_world (eval_data_path example_main, ''b.tif'') = Some [5, 10, 20]"
    by (simp add: imread_def stack4_world_def ev)
  have f: "run_inference example_libs example_main flat_world =
       (Some (Raised IndexError), flat_world)"
    by (simp add: run_inference_def list_files_def os_listdir_def flat_world_def
          ev accepted_types_def infer_image_def
          imread_def example_libs_def Path_suffix_def Let_def)
  have e: "run_inference example_libs example_main empty_image_world =
       (Some (Raised ZeroDivisionError), empty_image_world)"
    by (simp add: run_inference_def list_files_def os_listdir_def empty_image_world_def
          ev accepted_types_def infer_image_def
          imread_def example_libs_def Path_suffix_def Let_def)
  show ?thesis
    unfolding run f e using u rd
    by (simp add: os_path_exists_def ev mask_name_def Path_stem_def)
qed

text \<open>
  C1, amended. For every unlabeled image file of an accepted type in the uncurated
  folder that \<open>run_inference\<close> reaches (the files listed before it were processed
  without exit or exception), the run goes on from there as follows. When the
  suffix is .jpg, .jpeg or .png, or the file is a .tiff/.tif with two dimensions, or
  a .tiff/.tif with three dimensions the last of which is 3 or 4, and the array has
  a height and a width that are not both 0, the mask saved is that of the 2D
  strategy (rescale by 512 / max(height, width), evaluate, resize the mask to
  (height, width)). When the file is a .tiff/.tif with three dimensions otherwise,
  and its height and width are not both 0, the warning is printed and the mask
  saved is that of the 3D-stack strategy (rescale with channel axis 0, evaluate
  with z axis 0, resize the mask to (depth, height, width)). In both cases the run
  continues with the files listed after it. The suffix and shape combinations
  covered by neither case are exactly the unsupported ones.
\<close>

theorem run_inference_picks_strategy:
  assumes lst: "list_files w (eval_data_path M) = pre @ f # post"
      and unl: "\<not> str_in ''_seg'' f"
      and reached: "inference_loop L (eval_data_path M) pre w = (None, w1)"
      and rd: "imread w (eval_data_path M, f) = Some a"
  shows "((Path_suffix f \<in> set [''.jpg'', ''.jpeg'', ''.png'']
           \<or> (Path_suffix f \<in> set [''.tiff'', ''.tif''] \<and> length (shape L a) = 2)
           \<or> (Path_suffix f \<in> set [''.tiff'', ''.tif''] \<and> length (shape L a) = 3
                \<and> (last (shape L a) = 3 \<or> last (shape L a) = 4)))
          \<and> 2 \<le> length (shape L a) \<and> 0 < max (shape L a ! 0) (shape L a ! 1)
          \<longrightarrow> run_inference L M w =
                inference_loop L (eval_data_path M) post
                  (imsave (eval_data_path M, mask_name f) (strategy_2d L a)
                     (emit (ModelEval f) w1)))
       \<and> ((Path_suffix f \<in> set [''.tiff'', ''.tif''] \<and> length (shape L a) = 3
            \<and> \<not> (last (shape L a) = 3 \<or> last (shape L a) = 4))
          \<and> 0 < max (shape L a ! 1) (shape L a ! 2)
          \<longrightarrow> run_inference L M w =
                inference_loop L (eval_data_path M) post
                  (imsave (eval_data_path M, mask_name f) (strategy_3d L a)
                     (emit (ModelEval f) (emit (Printed StackWarning) w1))))
       \<and> (unsupported_shape f (shape L a) \<longleftrightarrow>
            \<not> (Path_suffix f \<in> set [''.jpg'', ''.jpeg'', ''.png'']
               \<or> (Path_suffix f \<in> set [''.tiff'', ''.tif''] \<and> length (shape L a) = 2)
               \<or> (Path_suffix f \<in> set [''.tiff'', ''.tif''] \<and> length (shape L a) = 3
                    \<and> (last (shape L a) = 3 \<or> last (shape L a) = 4)))
            \<and> \<not> (Path_suffix f \<in> set [''.tiff'', ''.tif''] \<and> length (shape L a) = 3
                  \<and> \<not> (last (shape L a) = 3 \<or> last (shape L a) = 4)))"
proof -
  note step = run_inference_step [OF lst unl reached]
  from inference_loop_keeps_images [OF reached unl] rd
  have rd1: "imread w1 (eval_data_path M, f) = Some a" by (simp add: imread_def)
  from lst have "f \<in> set (list_files w (eval_data_path M))" by simp
  then have "Path_suffix f \<in> set accepted_types" by (simp add: list_files_def)
  then have acc: "Path_suffix f \<in> set [''.jpg'', ''.jpeg'', ''.png'']
                 \<or> Path_suffix f \<in> set [''.tiff'', ''.tif'']"
    by (auto simp: accepted_types_def)
  show ?thesis
  proof (intro conjI impI)
    assume c: "(Path_suffix f \<in> set [''.jpg'', ''.jpeg'', ''.png'']
           \<or> (Path_suffix f \<in> set [''.tiff'', ''.tif''] \<and> length (shape L a) = 2)
           \<or> (Path_suffix f \<in> set [''.tiff'', ''.tif''] \<and> length (shape L a) = 3
                \<and> (last (shape L a) = 3 \<or> last (shape L a) = 4)))
          \<and> 2 \<le> length (shape L a) \<and> 0 < max (shape L a ! 0) (shape L a ! 1)"
    then have br: "Path_suffix f \<in> set [''.jpg'', ''.jpeg'', ''.png'']
             \<or> ((Path_suffix f \<in> set [''.tiff'', ''.tif''] \<and> length (shape L a) = 2)
                 \<or> (length (shape L a) = 3 \<and> (last (shape L a) = 3 \<or> last (shape L a) = 4)))"
      by blast
    from c have len: "2 \<le> length (shape L a)"
      and mx: "0 < max (shape L a ! 0) (shape L a ! 1)" by simp_all
    show "run_inference L M w =
                inference_loop L (eval_data_path M) post
                  (imsave (eval_data_path M, mask_name f) (strategy_2d L a)
                     (emit (ModelEval f) w1))"
      unfolding step infer_image_2d [OF rd1 br len mx] by simp
  next
    assume c: "(Path_suffix f \<in> set [''.tiff'', ''.tif''] \<and> length (shape L a) = 3
            \<and> \<not> (last (shape L a) = 3 \<or> last (shape L a) = 4))
          \<and> 0 < max (shape L a ! 1) (shape L a ! 2)"
    then have nbr: "\<not> (Path_suffix f \<in> set [''.jpg'', ''.jpeg'', ''.png'']
             \<or> ((Path_suffix f \<in> set [''.tiff'', ''.tif''] \<and> length (shape L a) = 2)
                 \<or> (length (shape L a) = 3 \<and> (last (shape L a) = 3 \<or> last (shape L a) = 4))))"
      by auto
    from c have br: "Path_suffix f \<in> set [''.tiff'', ''.tif''] \<and> length (shape L a) = 3"
      and mx: "0 < max (shape L a ! 1) (shape L a ! 2)" by simp_all
    show "run_inference L M w =
                inference_loop L (eval_data_path M) post
                  (imsave (eval_data_path M, mask_name f) (strategy_3d L a)
                     (emit (ModelEval f) (emit (Printed StackWarning) w1)))"
      unfolding step infer_image_3d [OF rd1 nbr br mx] by simp
  next
    from acc show "unsupported_shape f (shape L a) \<longleftrightarrow>
            \<not> (Path_suffix f \<in> set [''.jpg'', ''.jpeg'', ''.png'']
               \<or> (Path_suffix f \<in> set [''.tiff'', ''.tif''] \<and> length (shape L a) = 2)
               \<or> (Path_suffix f \<in> set [''.tiff'', ''.tif''] \<and> length (shape L a) = 3
                    \<and> (last (shape L a) = 3 \<or> last (shape L a) = 4)))
            \<and> \<not> (Path_suffix f \<in> set [''.tiff'', ''.tif''] \<and> length (shape L a) = 3
                  \<and> \<not> (last (shape L a) = 3 \<or> last (shape L a) = 4))"
      unfolding unsupported_shape_def by blast
  qed
qed

theorem run_inference_picks_strategy_witness:
  "list_files example_world (eval_data_path example_main) = [''a.png''] @ ''b.tif'' # [''a_seg.tiff'']
   \<and> \<not> str_in ''_seg'' ''b.tif''
   \<and> inference_loop example_libs (eval_data_path example_main) [''a.png''] example_world =
       (None, imsave (''ev'', ''a_seg.tiff'') [10, 20] (emit (ModelEval ''a.png'') example_world))
   \<and> imread example_world (eval_data_path example_main, ''b.tif'') = Some [5, 10, 20]
   \<and> run_inference example_libs example_main example_world =
       inference_loop example_libs ''ev'' [''a_seg.tiff'']
         (imsave (''ev'', ''b_seg.tiff'') [5, 10, 20]
            (emit (ModelEval ''b.tif'')
               (emit (Printed StackWarning)
                  (imsave (''ev'', ''a_seg.tiff'') [10, 20]
                     (emit (ModelEval ''a.png'') example_world)))))
   \<and> list_files example_world (eval_data_path example_main) = [] @ ''a.png'' # [''b.tif'', ''a_seg.tiff'']
   \<and> \<not> str_in ''_seg'' ''a.png''
   \<and> inference_loop example_libs (eval_data_path example_main) [] example_world = (None, example_world)
   \<and> imread example_world (eval_data_path example_main, ''a.png'') = Some [10, 20, 3]
   \<and> run_inference example_libs example_main example_world =
       inference_loop example_libs ''ev'' [''b.tif'', ''a_seg.tiff'']
         (imsave (''ev'', ''a_seg.tiff'') [10, 20] (emit (ModelEval ''a.png'') example_world))"
proof -
  have ev: "eval_data_path example_main = ''ev''"
    by (simp add: example_main_def MainWindow_init_def)
  have l1: "list_files example_world (eval_data_path example_main)
              = [''a.png''] @ ''b.tif'' # [''a_seg.tiff'']"
    by (simp add: ev list_files_def os_listdir_def example_world_def accepted_types_def
          Path_suffix_def)
  have l2: "list_files example_world (eval_data_path example_main)
              = [] @ ''a.png'' # [''b.tif'', ''a_seg.tiff'']"
    using l1 by simp
  have u1: "\<not> str_in ''_seg'' ''b.tif''" by simp
  have u2: "\<not> str_in ''_seg'' ''a.png''" by simp
  have p1: "inference_loop example_libs (eval_data_path example_main) [''a.png''] example_world =
       (None, imsave (''ev'', ''a_seg.tiff'') [10, 20] (emit (ModelEval ''a.png'') example_world))"
    by (simp add: ev infer_image_def imread_def example_world_def example_libs_def
          Path_suffix_def Path_stem_def Let_def)
  have p2: "inference_loop example_libs (eval_data_path example_main) [] example_world
              = (None, example_world)" by simp
  have r1: "imread example_world (eval_data_path example_main, ''b.tif'') = Some [5, 10, 20]"
    by (simp add: ev imread_def example_world_def)
  have r2: "imread example_world (eval_data_path example_main, ''a.png'') = Some [10, 20, 3]"
    by (simp add: ev imread_def example_world_def)
  have a: "run_inference example_libs example_main example_world =
       inference_loop example_libs ''ev'' [''a_seg.tiff'']
         (imsave (''ev'', ''b_seg.tiff'') [5, 10, 20]
            (emit (ModelEval ''b.tif'')
               (emit (Printed StackWarning)
                  (imsave (''ev'', ''a_seg.tiff'') [10, 20]
                     (emit (ModelEval ''a.png'') example_world)))))"
    using run_inference_picks_strategy [OF l1 u1 p1 r1]
    by (simp add: ev example_libs_def Path_suffix_def mask_name_def Path_stem_def
          strategy_3d_def)
  have b: "run_inference example_libs example_main example_world =
       inference_loop example_libs ''ev'' [''b.tif'', ''a_seg.tiff'']
         (imsave (''ev'', ''a_seg.tiff'') [10, 20] (emit (ModelEval ''a.png'') example_world))"
    using run_inference_picks_strategy [OF l2 u2 p2 r2]
    by (simp add: ev example_libs_def Path_suffix_def mask_name_def Path_stem_def
          strategy_2d_def)
  from l1 u1 p1 r1 a l2 u2 p2 r2 b show ?thesis by blast
qed

end
